theory Spec2Isabelle
  imports Complex_Main "HOL-Library.Char_ord" "HOL-Library.List_Lexorder"
    "HOL-Library.Sublist"
begin

section \<open>The personal library of app.py\<close>

text \<open>
  A shallow embedding of \<^verbatim>\<open>src/app.py\<close>: a Streamlit page that keeps a catalogue of
  books in a pandas data frame (\<^verbatim>\<open>st.session_state.library_df\<close>), saves it to
  \<^verbatim>\<open>library_data.csv\<close> after every change and keeps one cover image per book in the
  folder \<^verbatim>\<open>book_covers\<close>.

  What the model covers, and how:
  \<^item> a row of the data frame is a \<^theory_text>\<open>record\<close> with the thirteen columns. The two cells
    whose truth value the code tests, the finishing date and the cover path, are a Python
    string or \<^verbatim>\<open>NaN\<close>: the script loads the catalogue with \<^verbatim>\<open>pd.read_csv\<close>, which
    reads an empty field as \<^verbatim>\<open>NaN\<close>, so a book saved without a finishing date or
    without a cover has \<^verbatim>\<open>NaN\<close> there in every later session. The other text cells
    are strings (titles, authors, genres and statuses are never empty; an empty review
    or ISBN also comes back as \<^verbatim>\<open>NaN\<close>, and an ISBN of digits as a number, but no
    function modelled here tests or computes with those cells);
  \<^item> the frame has the default \<^verbatim>\<open>RangeIndex\<close>, so a label is a position in the list;
  \<^item> the files are those of a POSIX file system without links: the directories that
    exist, the regular files with their bytes, and the working directory of the script.
    A path is resolved component by component; writing a file fails when a directory on
    the way does not exist. The catalogue file \<^verbatim>\<open>library_data.csv\<close> is kept apart from
    the image files (the uploader delivers only \<^verbatim>\<open>jpg\<close>, \<^verbatim>\<open>jpeg\<close> and \<^verbatim>\<open>png\<close> files),
    and writing it never fails;
  \<^item> an exception that leaves a function is a result of its own, with the state at the
    moment it is raised;
  \<^item> \<^verbatim>\<open>datetime.date.today().strftime("%Y-%m-%d")\<close> is read from the clock: it is the
    parameter \<open>today\<close> of the operations that call it;
  \<^item> every effect is recorded, in order, in the field \<open>trace\<close> of the state.
\<close>

subsection \<open>Data\<close>

type_synonym bytes = string

text \<open>A cell that is a Python string or the float \<^verbatim>\<open>NaN\<close>, and its truth value.\<close>

datatype cell = Str string | NaN

fun truthy :: "cell \<Rightarrow> bool" where
  "truthy (Str s) = (s \<noteq> [])"
| "truthy NaN = True"

record book =
  Title :: string
  Author :: string
  ISBN :: string
  Genre :: string
  Publication_Year :: int
  Pages :: int
  Current_Page :: int
  Status :: string
  Rating :: int
  Review :: string
  Date_Added :: string
  Date_Finished :: cell
  Cover_Image :: cell

text \<open>What \<^verbatim>\<open>st.file_uploader\<close> returns: the name of the file and its bytes.\<close>

record uploaded_file =
  file_name :: string
  getbuffer :: bytes

datatype effect =
    Wrote_file string
  | Removed_file string
  | To_csv
  | St_success string
  | St_error string

text \<open>
  The state the functions read and change: the session's data frame and edit index; the
  working directory, the directories that exist and the regular files (each a list of
  path components from the root); the contents of \<^verbatim>\<open>library_data.csv\<close> (\<open>None\<close>: no
  such file); and the effects so far.
\<close>

record app =
  library_df :: "book list"
  edit_index :: "nat option"
  cwd :: "string list"
  dirs :: "string list set"
  disk :: "string list \<rightharpoonup> bytes"
  data_file :: "book list option"
  trace :: "effect list"

text \<open>The exceptions the code can raise. The errors of the file system are all \<^verbatim>\<open>OSError\<close>s
  (\<^verbatim>\<open>FileNotFoundError\<close>, \<^verbatim>\<open>NotADirectoryError\<close>, \<^verbatim>\<open>IsADirectoryError\<close>).\<close>

datatype fault =
    KeyError
  | IndexError
  | TypeError
  | ValueError
  | OSError

text \<open>
  How a call ends: it returns, or it raises, in both cases with the state it leaves. The
  third result stands for the one case that is not modelled: an assignment
  \<^verbatim>\<open>.at[index, col] = value\<close> with a label that is not in the index makes pandas add a
  row under that label, and the frame no longer has the labels 0 to n - 1.
\<close>

datatype outcome =
    Done app
  | Raised fault app
  | Adds_row

definition COVER_IMAGE_FOLDER :: string where
  "COVER_IMAGE_FOLDER = ''book_covers''"

definition GENRES :: "string list" where
  "GENRES = [''Fiction'', ''Non-Fiction'', ''Science Fiction'', ''Fantasy'',
     ''Mystery'', ''Thriller'', ''Romance'', ''Biography'',
     ''History'', ''Science'', ''Self-Help'', ''Other'']"

definition STATUSES :: "string list" where
  "STATUSES = [''Unread'', ''Reading'', ''Completed'', ''On Hold'', ''Dropped'']"

subsection \<open>Paths and files\<close>

text \<open>\<^verbatim>\<open>str.split(sep)\<close>: the pieces between the separators, at least one piece.\<close>

fun split_on :: "char \<Rightarrow> string \<Rightarrow> string list" where
  "split_on c [] = [[]]"
| "split_on c (x # xs) =
     (if x = c then [] # split_on c xs
      else (case split_on c xs of
              w # ws \<Rightarrow> (x # w) # ws
            | [] \<Rightarrow> [[x]]))"

text \<open>The limits of Linux on one component and on a whole path.\<close>

definition NAME_MAX :: nat where
  "NAME_MAX = 255"

definition PATH_MAX :: nat where
  "PATH_MAX = 4096"

text \<open>
  What a path names: a place for a regular file in a directory that exists (the file
  itself may or may not exist), a directory, nothing (a component on the way is missing,
  is not a directory or is too long), or no path at all (it holds a null byte).
\<close>

datatype place =
    File_at "string list"
  | Dir_at "string list"
  | No_entry
  | Null_byte

text \<open>
  Walking the components from the directory \<open>cur\<close>: empty components and \<^verbatim>\<open>.\<close> stay,
  \<^verbatim>\<open>..\<close> goes up (the root is its own parent), a directory is entered, and any other
  name must be the last component.
\<close>

fun walk :: "string list set \<Rightarrow> string list \<Rightarrow> string list \<Rightarrow> place" where
  "walk ds cur [] = Dir_at cur"
| "walk ds cur (c # cs) =
     (if c = [] \<or> c = ''.'' then walk ds cur cs
      else if c = ''..'' then walk ds (butlast cur) cs
      else if NAME_MAX < length c then No_entry
      else if cur @ [c] \<in> ds then walk ds (cur @ [c]) cs
      else if cs = [] then File_at (cur @ [c])
      else No_entry)"

definition resolve :: "app \<Rightarrow> string \<Rightarrow> place" where
  "resolve s path =
     (if CHR 0x00 \<in> set path then Null_byte
      else if path = [] \<or> PATH_MAX \<le> length path then No_entry
      else walk (dirs s) (if hd path = CHR ''/'' then [] else cwd s)
             (split_on CHR ''/'' path))"

text \<open>\<^verbatim>\<open>with open(path, "wb") as f: f.write(data)\<close>\<close>

definition open_wb :: "string \<Rightarrow> bytes \<Rightarrow> app \<Rightarrow> fault + app" where
  "open_wb path data s =
     (case resolve s path of
        File_at p \<Rightarrow>
          Inr (s\<lparr>disk := (disk s)(p \<mapsto> data), trace := trace s @ [Wrote_file path]\<rparr>)
      | Dir_at d \<Rightarrow> Inl OSError
      | No_entry \<Rightarrow> Inl OSError
      | Null_byte \<Rightarrow> Inl ValueError)"

text \<open>\<^verbatim>\<open>os.path.exists\<close> on a string: false where \<^verbatim>\<open>os.stat\<close> fails.\<close>

definition os_path_exists :: "app \<Rightarrow> string \<Rightarrow> bool" where
  "os_path_exists s path =
     (case resolve s path of
        File_at p \<Rightarrow> disk s p \<noteq> None
      | Dir_at d \<Rightarrow> True
      | No_entry \<Rightarrow> False
      | Null_byte \<Rightarrow> False)"

text \<open>\<^verbatim>\<open>os.remove\<close>: removes a regular file, raises on anything else.\<close>

definition os_remove :: "string \<Rightarrow> app \<Rightarrow> fault + app" where
  "os_remove path s =
     (case resolve s path of
        File_at p \<Rightarrow>
          (if disk s p \<noteq> None
           then Inr (s\<lparr>disk := (disk s)(p := None), trace := trace s @ [Removed_file path]\<rparr>)
           else Inl OSError)
      | Dir_at d \<Rightarrow> Inl OSError
      | No_entry \<Rightarrow> Inl OSError
      | Null_byte \<Rightarrow> Inl ValueError)"

text \<open>The bytes of the regular file a path names, if there is one.\<close>

definition file_content :: "app \<Rightarrow> string \<Rightarrow> bytes option" where
  "file_content s path =
     (case resolve s path of
        File_at p \<Rightarrow> disk s p
      | Dir_at d \<Rightarrow> None
      | No_entry \<Rightarrow> None
      | Null_byte \<Rightarrow> None)"

subsection \<open>Helper functions\<close>

definition st_success :: "string \<Rightarrow> app \<Rightarrow> app" where
  "st_success msg s = s\<lparr>trace := trace s @ [St_success msg]\<rparr>"

definition st_error :: "string \<Rightarrow> app \<Rightarrow> app" where
  "st_error msg s = s\<lparr>trace := trace s @ [St_error msg]\<rparr>"

definition save_data :: "app \<Rightarrow> app" where
  "save_data s = s\<lparr>data_file := Some (library_df s), trace := trace s @ [To_csv]\<rparr>"

text \<open>\<^verbatim>\<open>uploaded_file.name.split('.')[-1]\<close>\<close>

definition file_extension :: "string \<Rightarrow> string" where
  "file_extension n = last (split_on CHR ''.'' n)"

text \<open>\<^verbatim>\<open>f"{COVER_IMAGE_FOLDER}/{isbn}.{file_extension}"\<close>\<close>

definition cover_filename :: "string \<Rightarrow> string \<Rightarrow> string" where
  "cover_filename isbn ext = COVER_IMAGE_FOLDER @ ''/'' @ isbn @ ''.'' @ ext"

text \<open>
  \<^verbatim>\<open>handle_cover_upload\<close>: the file is written under the name made from the ISBN and the
  extension, and the name is returned; the exception of a failing \<^verbatim>\<open>open\<close> leaves the
  function, before anything is written.
\<close>

definition handle_cover_upload :: "uploaded_file option \<Rightarrow> string \<Rightarrow> app \<Rightarrow> fault + (string option \<times> app)" where
  "handle_cover_upload uploaded isbn s =
     (case uploaded of
        Some f \<Rightarrow>
          (let name = cover_filename isbn (file_extension (file_name f))
           in (case open_wb name (getbuffer f) s of
                 Inl e \<Rightarrow> Inl e
               | Inr s' \<Rightarrow> Inr (Some name, s')))
      | None \<Rightarrow> Inr (None, s))"

datatype image = Cover string | Placeholder

text \<open>
  \<^verbatim>\<open>display_cover\<close>: the image the page shows for a cover cell, the file itself or the
  placeholder \<^verbatim>\<open>https://via.placeholder.com/150x200?text=No+Cover\<close>. A \<^verbatim>\<open>NaN\<close> cell is
  true, so it reaches \<^verbatim>\<open>os.path.exists\<close>, which raises \<^verbatim>\<open>TypeError\<close> on a float.
\<close>

definition display_cover :: "app \<Rightarrow> cell \<Rightarrow> fault + image" where
  "display_cover s cover_path =
     (case cover_path of
        NaN \<Rightarrow> Inl TypeError
      | Str p \<Rightarrow>
          (if p \<noteq> [] \<and> os_path_exists s p then Inr (Cover p) else Inr Placeholder))"

subsection \<open>Adding, updating and deleting a book\<close>

definition new_book :: "string \<Rightarrow> string \<Rightarrow> string \<Rightarrow> string \<Rightarrow> int \<Rightarrow> int \<Rightarrow> string \<Rightarrow> cell \<Rightarrow> book" where
  "new_book title author isbn genre year pages today cover =
     \<lparr>Title = title, Author = author, ISBN = isbn, Genre = genre,
      Publication_Year = year, Pages = pages, Current_Page = 0,
      Status = ''Unread'', Rating = 0, Review = [],
      Date_Added = today, Date_Finished = Str [], Cover_Image = cover\<rparr>"

text \<open>
  \<^verbatim>\<open>add_book\<close>. The cover is stored first, inside the dictionary literal; if that raises,
  nothing else has happened. Then the row is appended with
  \<^verbatim>\<open>pd.concat(..., ignore_index=True)\<close>, the frame is saved and the success message is
  shown. \<^verbatim>\<open>handle_cover_upload\<close> returns a name whenever it is given a file, so the
  \<open>None\<close> case of its result is never taken when a file is present.
\<close>

definition add_book :: "string \<Rightarrow> string \<Rightarrow> string \<Rightarrow> string \<Rightarrow> int \<Rightarrow> int \<Rightarrow> uploaded_file option \<Rightarrow> string \<Rightarrow> app \<Rightarrow> outcome" where
  "add_book title author isbn genre year pages cover_file today s =
     (case (if cover_file \<noteq> None
            then (case handle_cover_upload cover_file isbn s of
                    Inl e \<Rightarrow> Inl e
                  | Inr (Some name, s') \<Rightarrow> Inr (Str name, s')
                  | Inr (None, s') \<Rightarrow> Inr (Str [], s'))
            else Inr (Str [], s)) of
        Inl e \<Rightarrow> Raised e s
      | Inr (cover, s1) \<Rightarrow>
          (let row = new_book title author isbn genre year pages today cover;
               s2 = s1\<lparr>library_df := library_df s1 @ [row]\<rparr>
           in Done (st_success ''Book added successfully!'' (save_data s2))))"

text \<open>
  \<^verbatim>\<open>update_book\<close>: ten cells of row \<open>index\<close> are overwritten with the arguments as they
  are; the finishing date is set when the new status is \<^verbatim>\<open>'Completed'\<close> and the cell is
  false (\<^verbatim>\<open>not cell\<close>: the empty string, not \<^verbatim>\<open>NaN\<close>). All this is done in the session's
  frame before the cover is touched. Then a new cover, if any, is stored under the name
  made from the \<^emph>\<open>new\<close> ISBN and the cell is pointed to it; if storing raises, the frame
  stays changed and is not saved.
\<close>

definition update_book :: "nat \<Rightarrow> string \<Rightarrow> string \<Rightarrow> string \<Rightarrow> string \<Rightarrow> int \<Rightarrow> int \<Rightarrow> int \<Rightarrow> string \<Rightarrow> int \<Rightarrow> string \<Rightarrow> uploaded_file option \<Rightarrow> string \<Rightarrow> app \<Rightarrow> outcome" where
  "update_book index title author isbn genre year pages current_page status rating review cover_file today s =
     (if index < length (library_df s) then
        (let b = library_df s ! index;
             b1 = b\<lparr>Title := title, Author := author, ISBN := isbn, Genre := genre,
                    Publication_Year := year, Pages := pages,
                    Current_Page := current_page, Status := status,
                    Rating := rating, Review := review\<rparr>;
             b2 = (if status = ''Completed'' \<and> \<not> truthy (Date_Finished b1)
                   then b1\<lparr>Date_Finished := Str today\<rparr> else b1);
             s1 = s\<lparr>library_df := (library_df s)[index := b2]\<rparr>
         in (case cover_file of
               None \<Rightarrow> Done (st_success ''Book updated successfully!'' (save_data s1))
             | Some f \<Rightarrow>
                 (case handle_cover_upload cover_file isbn s1 of
                    Inl e \<Rightarrow> Raised e s1
                  | Inr (cover_path, s2) \<Rightarrow>
                      (let b3 = (case cover_path of
                                   Some name \<Rightarrow>
                                     (if name \<noteq> [] then b2\<lparr>Cover_Image := Str name\<rparr> else b2)
                                 | None \<Rightarrow> b2);
                           s3 = s2\<lparr>library_df := (library_df s2)[index := b3]\<rparr>
                       in Done (st_success ''Book updated successfully!'' (save_data s3))))))
      else Adds_row)"

text \<open>
  \<^verbatim>\<open>delete_book\<close>: \<^verbatim>\<open>.at[index, 'Cover Image']\<close> raises \<^verbatim>\<open>KeyError\<close> on a label that
  is not in the index. In \<^verbatim>\<open>cover_path and os.path.exists(cover_path)\<close> an empty string
  stops at the first test, a \<^verbatim>\<open>NaN\<close> passes it and makes \<^verbatim>\<open>os.path.exists\<close> raise
  \<^verbatim>\<open>TypeError\<close>. The file is removed if it exists;
  \<^verbatim>\<open>drop(index).reset_index(drop=True)\<close> takes the row out and renumbers.
\<close>

definition delete_book :: "nat \<Rightarrow> app \<Rightarrow> outcome" where
  "delete_book index s =
     (if index < length (library_df s) then
        (case (case Cover_Image (library_df s ! index) of
                 NaN \<Rightarrow> Inl TypeError
               | Str cover_path \<Rightarrow>
                   (if cover_path \<noteq> [] \<and> os_path_exists s cover_path
                    then os_remove cover_path s else Inr s)) of
           Inl e \<Rightarrow> Raised e s
         | Inr s1 \<Rightarrow>
             (let s2 = s1\<lparr>library_df :=
                          take index (library_df s1) @ drop (Suc index) (library_df s1)\<rparr>
              in Done (st_success ''Book deleted successfully!'' (save_data s2))))
      else Raised KeyError s)"

subsection \<open>The forms\<close>

text \<open>
  \<^verbatim>\<open>show_add_book_form\<close> after "Add Book" is pressed: the arguments are what the widgets
  returned. \<^verbatim>\<open>not title\<close> is true of the empty string, \<^verbatim>\<open>not pages\<close> of the number 0.
\<close>

definition show_add_book_form :: "string \<Rightarrow> string \<Rightarrow> string \<Rightarrow> string \<Rightarrow> int \<Rightarrow> int \<Rightarrow> uploaded_file option \<Rightarrow> string \<Rightarrow> app \<Rightarrow> outcome" where
  "show_add_book_form title author isbn genre year pages cover_file today s =
     (if title = [] \<or> author = [] \<or> pages = 0
      then Done (st_error ''Please fill in all required fields (marked with *)'' s)
      else add_book title author isbn genre year pages cover_file today s)"

text \<open>
  What the widgets of the edit form can return for the row \<open>b\<close> being edited: the
  bounds of each \<^verbatim>\<open>text_input\<close>, \<^verbatim>\<open>selectbox\<close>, \<^verbatim>\<open>number_input\<close> and \<^verbatim>\<open>slider\<close>. The
  bound on the current page is the number of pages \<^emph>\<open>stored\<close> in the row
  (\<^verbatim>\<open>max_value=book['Pages']\<close>), not the number entered in the same form.
\<close>

definition edit_form_admits :: "book \<Rightarrow> int \<Rightarrow> string \<Rightarrow> string \<Rightarrow> string \<Rightarrow> string \<Rightarrow> int \<Rightarrow> int \<Rightarrow> int \<Rightarrow> string \<Rightarrow> int \<Rightarrow> bool" where
  "edit_form_admits b this_year title author isbn genre year pages current_page status rating =
     (length title \<le> 100 \<and> length author \<le> 50 \<and> length isbn \<le> 20 \<and>
      genre \<in> set GENRES \<and>
      0 \<le> year \<and> year \<le> this_year \<and>
      1 \<le> pages \<and>
      0 \<le> current_page \<and> current_page \<le> Pages b \<and>
      status \<in> set STATUSES \<and>
      0 \<le> rating \<and> rating \<le> 5)"

text \<open>
  \<^verbatim>\<open>show_edit_book_form\<close> after "Update Book" is pressed. Without an edit index the form
  is not shown; \<^verbatim>\<open>iloc[index]\<close> raises \<^verbatim>\<open>IndexError\<close> out of range; after a successful
  update the edit index is deleted.
\<close>

definition show_edit_book_form :: "string \<Rightarrow> string \<Rightarrow> string \<Rightarrow> string \<Rightarrow> int \<Rightarrow> int \<Rightarrow> int \<Rightarrow> string \<Rightarrow> int \<Rightarrow> string \<Rightarrow> uploaded_file option \<Rightarrow> string \<Rightarrow> app \<Rightarrow> outcome" where
  "show_edit_book_form title author isbn genre year pages current_page status rating review cover_file today s =
     (case edit_index s of
        None \<Rightarrow> Done s
      | Some index \<Rightarrow>
          if index < length (library_df s) then
            (if title = [] \<or> author = [] \<or> pages = 0
             then Done (st_error ''Please fill in all required fields (marked with *)'' s)
             else (case update_book index title author isbn genre year pages current_page
                          status rating review cover_file today s of
                     Done s' \<Rightarrow> Done (s'\<lparr>edit_index := None\<rparr>)
                   | Raised e s' \<Rightarrow> Raised e s'
                   | Adds_row \<Rightarrow> Adds_row))
          else Raised IndexError s)"

subsection \<open>Search, filters and sorting\<close>

text \<open>The dictionary that \<^verbatim>\<open>show_search_filters\<close> returns.\<close>

record filters =
  search_query :: string
  genre_filter :: "string list"
  status_filter :: "string list"
  year_min :: int
  year_max :: int
  rating_filter :: int
  sort_option :: string

text \<open>
  \<^verbatim>\<open>str.lower()\<close> on ASCII letters. Bytes outside ASCII are left as they are: the case
  mapping of Unicode is not modelled.
\<close>

definition lower_char :: "char \<Rightarrow> char" where
  "lower_char c =
     (case map_of (zip ''ABCDEFGHIJKLMNOPQRSTUVWXYZ'' ''abcdefghijklmnopqrstuvwxyz'') c of
        Some l \<Rightarrow> l
      | None \<Rightarrow> c)"

definition lower :: "string \<Rightarrow> string" where
  "lower s = map lower_char s"

text \<open>
  \<^verbatim>\<open>Series.str.contains(pat)\<close> is called without \<^verbatim>\<open>regex=False\<close>, so pandas takes the
  pattern as a regular expression and keeps the rows where \<^verbatim>\<open>re.search\<close> finds a match.
  The model covers the patterns made of ordinary characters and the dot: an ordinary
  character matches itself, the dot matches any character but the newline. A pattern
  with another special character of \<^verbatim>\<open>re\<close> (which may also fail to compile) is outside
  the model: the result is \<open>None\<close>.
\<close>

definition RE_SPECIAL :: string where
  "RE_SPECIAL = [CHR ''.'', CHR ''^'', CHR ''$'', CHR ''*'', CHR ''+'', CHR ''?'',
     CHR ''{'', CHR ''}'', CHR ''['', CHR '']'', CHR 0x5C, CHR ''|'', CHR ''('', CHR '')'']"

definition re_modelled :: "string \<Rightarrow> bool" where
  "re_modelled pat = list_all (\<lambda>c. c = CHR ''.'' \<or> c \<notin> set RE_SPECIAL) pat"

fun re_match_here :: "string \<Rightarrow> string \<Rightarrow> bool" where
  "re_match_here [] s = True"
| "re_match_here (p # ps) [] = False"
| "re_match_here (p # ps) (c # cs) =
     ((if p = CHR ''.'' then c \<noteq> CHR 0x0A else c = p) \<and> re_match_here ps cs)"

fun re_search :: "string \<Rightarrow> string \<Rightarrow> bool" where
  "re_search pat [] = re_match_here pat []"
| "re_search pat (c # cs) = (re_match_here pat (c # cs) \<or> re_search pat cs)"

definition str_contains :: "string \<Rightarrow> string \<Rightarrow> bool option" where
  "str_contains pat s = (if re_modelled pat then Some (re_search pat s) else None)"

text \<open>
  The search filter on one row: \<^verbatim>\<open>Title.str.lower().str.contains(search) |
  Author.str.lower().str.contains(search)\<close>; both sides are computed.
\<close>

definition search_matches :: "string \<Rightarrow> book \<Rightarrow> bool option" where
  "search_matches search b =
     (case (str_contains search (lower (Title b)), str_contains search (lower (Author b))) of
        (Some t, Some a) \<Rightarrow> Some (t \<or> a)
      | _ \<Rightarrow> None)"

text \<open>Keeping the rows of a boolean mask; \<open>None\<close> if the mask could not be computed.\<close>

fun mask_rows :: "(book \<Rightarrow> bool option) \<Rightarrow> book list \<Rightarrow> book list option" where
  "mask_rows m [] = Some []"
| "mask_rows m (b # bs) =
     (case m b of
        None \<Rightarrow> None
      | Some keep \<Rightarrow>
          (case mask_rows m bs of
             None \<Rightarrow> None
           | Some rest \<Rightarrow> Some (if keep then b # rest else rest)))"

text \<open>The part of \<^verbatim>\<open>filter_and_sort_books\<close> under \<^verbatim>\<open># Apply filters\<close>.\<close>

definition apply_filters :: "filters \<Rightarrow> book list \<Rightarrow> book list option" where
  "apply_filters f df =
     (case (if search_query f \<noteq> []
            then mask_rows (search_matches (lower (search_query f))) df
            else Some df) of
        None \<Rightarrow> None
      | Some df1 \<Rightarrow>
          (let df2 = (if genre_filter f \<noteq> []
                      then filter (\<lambda>b. Genre b \<in> set (genre_filter f)) df1 else df1);
               df3 = (if status_filter f \<noteq> []
                      then filter (\<lambda>b. Status b \<in> set (status_filter f)) df2 else df2);
               df4 = filter (\<lambda>b. year_min f \<le> Publication_Year b \<and>
                                  Publication_Year b \<le> year_max f) df3;
               df5 = filter (\<lambda>b. rating_filter f \<le> Rating b) df4
           in Some df5))"

definition sort_mapping :: "(string \<times> (string \<times> bool)) list" where
  "sort_mapping =
     [(''Date Added (Newest)'', (''Date Added'', False)),
      (''Date Added (Oldest)'', (''Date Added'', True)),
      (''Title (A-Z)'', (''Title'', True)),
      (''Title (Z-A)'', (''Title'', False)),
      (''Author (A-Z)'', (''Author'', True)),
      (''Author (Z-A)'', (''Author'', False)),
      (''Rating (High-Low)'', (''Rating'', False)),
      (''Rating (Low-High)'', (''Rating'', True))]"

text \<open>\<^verbatim>\<open>sort_mapping.get(filters['sort_option'], ('Date Added', False))\<close>\<close>

definition sort_choice :: "filters \<Rightarrow> string \<times> bool" where
  "sort_choice f =
     (case map_of sort_mapping (sort_option f) of
        Some choice \<Rightarrow> choice
      | None \<Rightarrow> (''Date Added'', False))"

text \<open>
  \<^verbatim>\<open>filter_and_sort_books\<close>. The sorting itself is done by pandas:
  \<^verbatim>\<open>sort_values(by=sort_column, ascending=ascending)\<close>, with no \<^verbatim>\<open>kind\<close> argument, so
  with the default \<^verbatim>\<open>kind='quicksort'\<close>. That routine is not code of this repository:
  it is the parameter \<open>sort_values\<close>, taking the column name, the direction and the rows.
\<close>

definition filter_and_sort_books :: "(string \<Rightarrow> bool \<Rightarrow> book list \<Rightarrow> book list) \<Rightarrow> filters \<Rightarrow> app \<Rightarrow> book list option" where
  "filter_and_sort_books sort_values f s =
     (case apply_filters f (library_df s) of
        None \<Rightarrow> None
      | Some filtered_df \<Rightarrow>
          (let (sort_column, ascending) = sort_choice f
           in Some (sort_values sort_column ascending filtered_df)))"

subsection \<open>Statistics\<close>

text \<open>
  \<^verbatim>\<open>Series.mean()\<close>: the sum over the count, \<^verbatim>\<open>NaN\<close> (here \<open>None\<close>) on an empty series.
  The model is exact (a rational), where pandas computes in floating point.
\<close>

definition mean :: "int list \<Rightarrow> rat option" where
  "mean xs = (if xs = [] then None else Some (of_int (sum_list xs) / of_nat (length xs)))"

record metrics =
  Total_Books :: nat
  Books_Read :: nat
  Total_Pages :: int
  Average_Rating :: "rat option"
  Pages_Read :: int

text \<open>
  The five metrics of \<^verbatim>\<open>show_statistics\<close>; \<open>None\<close> when the library is empty (a warning
  is shown and the function returns).
\<close>

definition show_statistics :: "app \<Rightarrow> metrics option" where
  "show_statistics s =
     (let df = library_df s in
      if df = [] then None
      else Some
        \<lparr>Total_Books = length df,
         Books_Read = length (filter (\<lambda>b. Status b = ''Completed'') df),
         Total_Pages = sum_list (map Pages df),
         Average_Rating = mean (map Rating df),
         Pages_Read =
           sum_list (map Pages (filter (\<lambda>b. Status b = ''Completed'') df)) +
           sum_list (map Current_Page (filter (\<lambda>b. Status b = ''Reading'') df))\<rparr>)"

text \<open>The average rating of the sidebar's "Quick Stats" in \<^verbatim>\<open>main\<close>.\<close>

definition quick_stats_average_rating :: "app \<Rightarrow> rat option" where
  "quick_stats_average_rating s =
     (if library_df s \<noteq> [] then mean (map Rating (library_df s)) else None)"

section \<open>Stating the properties\<close>

subsection \<open>States and rows used as examples\<close>

text \<open>
  A session in the working directory \<^verbatim>\<open>/app\<close>, in which the script has made the folder
  \<^verbatim>\<open>book_covers\<close> (\<^verbatim>\<open>Path(COVER_IMAGE_FOLDER).mkdir(exist_ok=True)\<close>), with the rows
  \<open>df\<close> in the frame and no file yet.
\<close>

definition app_of :: "book list \<Rightarrow> app" where
  "app_of df =
     \<lparr>library_df = df, edit_index = None, cwd = [''app''],
      dirs = {[], [''app''], [''app'', ''book_covers'']},
      disk = Map.empty, data_file = None, trace = []\<rparr>"

text \<open>The two records of the specification's example: A is rated 4, B is not rated.\<close>

definition book_A :: book where
  "book_A =
     \<lparr>Title = ''A'', Author = ''Ann'', ISBN = ''111'', Genre = ''Fiction'',
      Publication_Year = 2001, Pages = 300, Current_Page = 300, Status = ''Completed'',
      Rating = 4, Review = [], Date_Added = ''2024-01-05'',
      Date_Finished = Str ''2024-02-01'', Cover_Image = Str []\<rparr>"

definition book_B :: book where
  "book_B =
     \<lparr>Title = ''B'', Author = ''Bob'', ISBN = ''222'', Genre = ''History'',
      Publication_Year = 1999, Pages = 200, Current_Page = 0, Status = ''Unread'',
      Rating = 0, Review = [], Date_Added = ''2024-01-05'', Date_Finished = Str [],
      Cover_Image = Str []\<rparr>"

text \<open>
  A book that was added and once updated (status, page, review) without a cover and
  without being finished, as the session that made it holds it: the finishing date and
  the cover path are the empty strings that \<^verbatim>\<open>add_book\<close> put there.
\<close>

definition book_emma :: book where
  "book_emma =
     \<lparr>Title = ''Emma'', Author = ''Jane Austen'', ISBN = ''978-0-14-143958-7'',
      Genre = ''Fiction'', Publication_Year = 1815, Pages = 474, Current_Page = 120,
      Status = ''Reading'', Rating = 0, Review = ''Slow start'', Date_Added = ''2024-01-05'',
      Date_Finished = Str [], Cover_Image = Str []\<rparr>"

text \<open>
  The same book as a later session finds it: it was saved with an empty finishing date
  and an empty cover path, and \<^verbatim>\<open>pd.read_csv\<close> reads both cells as \<^verbatim>\<open>NaN\<close>. (Its
  other text cells are not empty and do not read as numbers, so they come back as the
  strings they were.)
\<close>

definition book_emma_reloaded :: book where
  "book_emma_reloaded = book_emma\<lparr>Date_Finished := NaN, Cover_Image := NaN\<rparr>"

definition book_dune :: book where
  "book_dune =
     \<lparr>Title = ''Dune'', Author = ''Frank Herbert'', ISBN = ''0441013597'',
      Genre = ''Science Fiction'', Publication_Year = 1965, Pages = 100, Current_Page = 80,
      Status = ''Reading'', Rating = 0, Review = [], Date_Added = ''2024-03-01'',
      Date_Finished = Str [], Cover_Image = Str []\<rparr>"

definition old_cover :: uploaded_file where
  "old_cover = \<lparr>file_name = ''old.jpg'', getbuffer = ''old bytes''\<rparr>"

definition new_cover :: uploaded_file where
  "new_cover = \<lparr>file_name = ''new.jpg'', getbuffer = ''new bytes''\<rparr>"

definition other_cover :: uploaded_file where
  "other_cover = \<lparr>file_name = ''other.png'', getbuffer = ''png bytes''\<rparr>"

text \<open>
  A library of one book with the ISBN 111 and the cover \<^verbatim>\<open>book_covers/111.jpg\<close>: the
  state that adding the book with the file \<^verbatim>\<open>old.jpg\<close> to the empty library leaves
  (\<open>shelf_is_added\<close> below).
\<close>

definition shelf :: app where
  "shelf =
     \<lparr>library_df =
        [\<lparr>Title = ''Dune'', Author = ''Frank Herbert'', ISBN = ''111'',
          Genre = ''Science Fiction'', Publication_Year = 1965, Pages = 100,
          Current_Page = 0, Status = ''Unread'', Rating = 0, Review = [],
          Date_Added = ''2024-03-01'', Date_Finished = Str [],
          Cover_Image = Str ''book_covers/111.jpg''\<rparr>],
      edit_index = None, cwd = [''app''],
      dirs = {[], [''app''], [''app'', ''book_covers'']},
      disk = [[''app'', ''book_covers'', ''111.jpg''] \<mapsto> ''old bytes''],
      data_file =
        Some [\<lparr>Title = ''Dune'', Author = ''Frank Herbert'', ISBN = ''111'',
          Genre = ''Science Fiction'', Publication_Year = 1965, Pages = 100,
          Current_Page = 0, Status = ''Unread'', Rating = 0, Review = [],
          Date_Added = ''2024-03-01'', Date_Finished = Str [],
          Cover_Image = Str ''book_covers/111.jpg''\<rparr>],
      trace = [Wrote_file ''book_covers/111.jpg'', To_csv,
               St_success ''Book added successfully!'']\<rparr>"

text \<open>What \<^verbatim>\<open>show_search_filters\<close> returns when no widget is touched (in the year 2026).\<close>

definition no_filters :: filters where
  "no_filters =
     \<lparr>search_query = [], genre_filter = [], status_filter = [], year_min = 0,
      year_max = 2026, rating_filter = 0, sort_option = ''Date Added (Newest)''\<rparr>"

subsection \<open>The specification's average rating\<close>

text \<open>
  The average as the specification words it: the mean over the records with a rating
  above 0, and 0 when there is none. It is compared with the code's \<open>mean\<close> below.
\<close>

definition spec_averageRating :: "book list \<Rightarrow> rat" where
  "spec_averageRating rs =
     (let rated = filter (\<lambda>b. 0 < Rating b) rs
      in if rated = [] then 0
         else of_int (sum_list (map Rating rated)) / of_nat (length rated))"

subsection \<open>Cover files and the rows that point to them\<close>


subsection \<open>Sequences of updates\<close>

text \<open>One call of \<^verbatim>\<open>update_book\<close> with its arguments, and a run of such calls in order.\<close>

record update_call =
  u_index :: nat
  u_title :: string
  u_author :: string
  u_isbn :: string
  u_genre :: string
  u_year :: int
  u_pages :: int
  u_current_page :: int
  u_status :: string
  u_rating :: int
  u_review :: string
  u_cover_file :: "uploaded_file option"
  u_today :: string

definition run_update :: "update_call \<Rightarrow> app \<Rightarrow> outcome" where
  "run_update c s =
     update_book (u_index c) (u_title c) (u_author c) (u_isbn c) (u_genre c) (u_year c)
       (u_pages c) (u_current_page c) (u_status c) (u_rating c) (u_review c)
       (u_cover_file c) (u_today c) s"

text \<open>A call that raises leaves its state to the next call: the session goes on.\<close>

fun run_updates :: "update_call list \<Rightarrow> app \<Rightarrow> app option" where
  "run_updates [] s = Some s"
| "run_updates (c # cs) s =
     (case run_update c s of
        Done s' \<Rightarrow> run_updates cs s'
      | Raised e s' \<Rightarrow> run_updates cs s'
      | Adds_row \<Rightarrow> None)"

section \<open>Lemmas about the operations\<close>


lemma not_truthy_iff: "\<not> truthy c \<longleftrightarrow> c = Str []"
  by (cases c) auto

text \<open>What a path names depends on the directories only, which no operation changes.\<close>

lemma resolve_frame [simp]:
  "resolve (s\<lparr>library_df := df\<rparr>) = resolve s"
  "resolve (s\<lparr>edit_index := ei\<rparr>) = resolve s"
  "resolve (s\<lparr>disk := d\<rparr>) = resolve s"
  "resolve (s\<lparr>data_file := c\<rparr>) = resolve s"
  "resolve (s\<lparr>trace := t\<rparr>) = resolve s"
  by (simp_all add: resolve_def fun_eq_iff)

lemma resolve_save_data [simp]: "resolve (save_data s) = resolve s"
  by (simp add: save_data_def)

lemma resolve_st_success [simp]: "resolve (st_success m s) = resolve s"
  by (simp add: st_success_def)

lemma open_wb_cases:
  "open_wb path data s =
     (case resolve s path of
        File_at p \<Rightarrow>
          Inr (s\<lparr>disk := (disk s)(p \<mapsto> data), trace := trace s @ [Wrote_file path]\<rparr>)
      | Dir_at d \<Rightarrow> Inl OSError
      | No_entry \<Rightarrow> Inl OSError
      | Null_byte \<Rightarrow> Inl ValueError)"
  by (simp add: open_wb_def)

lemma sum_rated:
  "list_all (\<lambda>b. 0 \<le> Rating b) df \<Longrightarrow>
   sum_list (map Rating (filter (\<lambda>b. 0 < Rating b) df)) = sum_list (map Rating df)"
  by (induction df) auto

subsection \<open>The example library\<close>

lemma resolve_111_jpg:
  "resolve (app_of df) ''book_covers/111.jpg'' = File_at [''app'', ''book_covers'', ''111.jpg'']"
  "resolve shelf ''book_covers/111.jpg'' = File_at [''app'', ''book_covers'', ''111.jpg'']"
  by (simp_all add: resolve_def app_of_def shelf_def NAME_MAX_def PATH_MAX_def)

lemma shelf_is_added:
  "add_book ''Dune'' ''Frank Herbert'' ''111'' ''Science Fiction'' 1965 100
     (Some old_cover) ''2024-03-01'' (app_of []) = Done shelf"
proof -
  have n: "cover_filename ''111'' (file_extension (file_name old_cover)) = ''book_covers/111.jpg''"
    by (simp add: old_cover_def cover_filename_def file_extension_def COVER_IMAGE_FOLDER_def)
  show ?thesis
    by (simp add: add_book_def handle_cover_upload_def n open_wb_def resolve_111_jpg
          save_data_def st_success_def new_book_def Let_def)
       (simp add: app_of_def shelf_def old_cover_def)
qed

lemma shelf_rows:
  "length (library_df shelf) = 1
   \<and> Cover_Image (library_df shelf ! 0) = Str ''book_covers/111.jpg''
   \<and> file_content shelf ''book_covers/111.jpg'' = Some ''old bytes''"
  by (simp add: file_content_def resolve_111_jpg) (simp add: shelf_def)

lemma new_cover_name:
  "cover_filename ''111'' (file_extension (file_name new_cover)) = ''book_covers/111.jpg''
   \<and> getbuffer new_cover = ''new bytes''"
  by (simp add: new_cover_def cover_filename_def file_extension_def COVER_IMAGE_FOLDER_def)

subsection \<open>The search pattern\<close>

text \<open>
  A pattern without a dot (and without another special character) is searched as a
  plain substring.
\<close>

lemma re_match_here_prefix:
  "CHR ''.'' \<notin> set pat \<Longrightarrow> re_match_here pat s = prefix pat s"
  by (induction pat s rule: re_match_here.induct) auto

lemma re_search_sublist:
  "CHR ''.'' \<notin> set pat \<Longrightarrow> re_search pat s = sublist pat s"
  by (induction s) (auto simp: re_match_here_prefix sublist_Cons_right)

lemma search_matches_plain:
  "set search \<inter> set RE_SPECIAL = {} \<Longrightarrow>
   search_matches search b =
     Some (sublist search (lower (Title b)) \<or> sublist search (lower (Author b)))"
proof -
  assume a: "set search \<inter> set RE_SPECIAL = {}"
  then have m: "re_modelled search"
    by (auto simp: re_modelled_def list_all_iff)
  from a have "CHR ''.'' \<notin> set search" by (auto simp: RE_SPECIAL_def)
  with m show ?thesis
    by (simp add: search_matches_def str_contains_def re_search_sublist)
qed

subsection \<open>The sort option\<close>

text \<open>
  An option that is not in \<open>sort_mapping\<close> sorts by the date added, newest first. (How
  rows with equal keys are ordered is decided inside \<^verbatim>\<open>sort_values\<close>, outside this
  repository.)
\<close>

lemma sort_choice_default:
  "sort_option f \<notin> fst ` set sort_mapping \<Longrightarrow> sort_choice f = (''Date Added'', False)"
  by (simp add: sort_choice_def map_of_eq_None_iff[symmetric])

subsection \<open>Updates and the finishing date\<close>

lemma update_book_in_range:
  "index < length (library_df s) \<Longrightarrow>
   update_book index title author isbn genre year pages current_page status rating
     review cover_file today s \<noteq> Adds_row"
  by (simp add: update_book_def Let_def split: option.splits sum.splits prod.splits)

lemma update_book_rows:
  assumes "update_book index title author isbn genre year pages current_page status rating
             review cover_file today s = Done s'
           \<or> update_book index title author isbn genre year pages current_page status rating
             review cover_file today s = Raised e s'"
  shows "index < length (library_df s)
       \<and> length (library_df s') = length (library_df s)
       \<and> (\<forall>j. j \<noteq> index \<longrightarrow> library_df s' ! j = library_df s ! j)
       \<and> Date_Finished (library_df s' ! index) =
           (if status = ''Completed'' \<and> Date_Finished (library_df s ! index) = Str []
            then Str today else Date_Finished (library_df s ! index))
       \<and> Current_Page (library_df s' ! index) = current_page
       \<and> Pages (library_df s' ! index) = pages"
  using assms
  by (auto simp: update_book_def Let_def save_data_def st_success_def handle_cover_upload_def
        open_wb_def not_truthy_iff
        split: if_splits option.splits sum.splits prod.splits place.splits)

text \<open>
  Whatever updates follow, with whatever statuses and whether they return or raise, a
  finishing-date cell that is true (a date, or \<^verbatim>\<open>NaN\<close>) is never written again.
\<close>

lemma run_updates_keep:
  "run_updates cs s = Some s' \<Longrightarrow>
   length (library_df s') = length (library_df s) \<and>
   (\<forall>i < length (library_df s).
      truthy (Date_Finished (library_df s ! i)) \<longrightarrow>
      Date_Finished (library_df s' ! i) = Date_Finished (library_df s ! i))"
proof (induction cs arbitrary: s)
  case Nil
  then show ?case by simp
next
  case (Cons c cs)
  from Cons.prems obtain s1 where
    step: "(\<exists>e. run_update c s = Raised e s1) \<or> run_update c s = Done s1"
    and rest: "run_updates cs s1 = Some s'"
    by (auto split: outcome.splits)
  from step have r: "length (library_df s1) = length (library_df s)
      \<and> (\<forall>j. j \<noteq> u_index c \<longrightarrow> library_df s1 ! j = library_df s ! j)
      \<and> Date_Finished (library_df s1 ! u_index c) =
           (if u_status c = ''Completed'' \<and> Date_Finished (library_df s ! u_index c) = Str []
            then Str (u_today c) else Date_Finished (library_df s ! u_index c))"
    unfolding run_update_def using update_book_rows by blast
  have keep: "Date_Finished (library_df s1 ! i) = Date_Finished (library_df s ! i)"
    if "truthy (Date_Finished (library_df s ! i))" for i
  proof (cases "i = u_index c")
    case True
    with that r show ?thesis by (auto simp: not_truthy_iff[symmetric])
  next
    case False
    with r show ?thesis by simp
  qed
  from Cons.IH[OF rest] r keep show ?case by auto
qed

subsection \<open>Updates that bring a cover\<close>







subsection \<open>Adding a book with a cover\<close>

lemma add_book_cover_written:
  assumes "resolve s (cover_filename isbn (file_extension (file_name f))) = File_at p"
  shows "\<exists>s1. add_book title author isbn genre year pages (Some f) today s = Done s1
      \<and> library_df s1 =
          library_df s @ [new_book title author isbn genre year pages today
                            (Str (cover_filename isbn (file_extension (file_name f))))]
      \<and> disk s1 = (disk s)(p \<mapsto> getbuffer f)
      \<and> resolve s1 = resolve s"
  using assms
  by (simp add: add_book_def handle_cover_upload_def open_wb_def Let_def save_data_def
        st_success_def)

lemma add_book_cover_refused:
  assumes "\<forall>p. resolve s (cover_filename isbn (file_extension (file_name f))) \<noteq> File_at p"
  shows "\<exists>e. add_book title author isbn genre year pages (Some f) today s = Raised e s
      \<and> handle_cover_upload (Some f) isbn s = Inl e
      \<and> file_content s (cover_filename isbn (file_extension (file_name f))) = None"
  using assms
  by (cases "resolve s (cover_filename isbn (file_extension (file_name f)))")
     (simp_all add: add_book_def handle_cover_upload_def open_wb_def Let_def file_content_def)

lemma resolve_111_png:
  "resolve shelf ''book_covers/111.png'' = File_at [''app'', ''book_covers'', ''111.png'']"
  by (simp add: resolve_def shelf_def NAME_MAX_def PATH_MAX_def)

lemma other_cover_name:
  "cover_filename ''111'' (file_extension (file_name other_cover)) = ''book_covers/111.png''"
  by (simp add: other_cover_def cover_filename_def file_extension_def COVER_IMAGE_FOLDER_def)

subsection \<open>Deleting a row whose cover cell is a string\<close>

text \<open>
  Deleting an existing row whose cover cell is a string that names no directory: the row
  is taken out, the rows before it keep their positions and the rows after it move up by
  one; the cover file, if the cell names one, is removed and no other file is touched;
  showing the cover afterwards gives the placeholder; the saved file holds the rows left.
\<close>

lemma resolve_empty [simp]: "resolve s [] = No_entry"
  by (simp add: resolve_def)

lemma delete_book_string_cover:
  assumes "index < length (library_df s)"
      and "Cover_Image (library_df s ! index) = Str q"
      and "\<forall>d. resolve s q \<noteq> Dir_at d"
  shows "\<exists>s'. delete_book index s = Done s'
     \<and> library_df s' = take index (library_df s) @ drop (Suc index) (library_df s)
     \<and> Suc (length (library_df s')) = length (library_df s)
     \<and> (\<forall>j. j < index \<longrightarrow> library_df s' ! j = library_df s ! j)
     \<and> (\<forall>j. index \<le> j \<and> Suc j < length (library_df s) \<longrightarrow>
             library_df s' ! j = library_df s ! Suc j)
     \<and> file_content s' q = None
     \<and> (\<forall>p. resolve s q \<noteq> File_at p \<longrightarrow> disk s' p = disk s p)
     \<and> display_cover s' (Str q) = Inr Placeholder
     \<and> data_file s' = Some (library_df s')
     \<and> resolve s' = resolve s"
proof -
  let ?rows = "take index (library_df s) @ drop (Suc index) (library_df s)"
  have len: "Suc (length ?rows) = length (library_df s)"
    using assms(1) by simp
  have before: "\<forall>j. j < index \<longrightarrow> ?rows ! j = library_df s ! j"
    using assms(1) by (simp add: nth_append)
  have after: "\<forall>j. index \<le> j \<and> Suc j < length (library_df s) \<longrightarrow> ?rows ! j = library_df s ! Suc j"
    using assms(1) by (auto simp: nth_append min_def)
  show ?thesis
  proof (cases "q \<noteq> [] \<and> os_path_exists s q")
    case False
    define s' where
      "s' = st_success ''Book deleted successfully!'' (save_data (s\<lparr>library_df := ?rows\<rparr>))"
    from False have guard: "(q \<noteq> [] \<and> os_path_exists s q) = False" by blast
    have run: "delete_book index s = Done s'"
      using assms(1,2) by (simp add: delete_book_def s'_def Let_def guard)
    have rows: "library_df s' = ?rows" and dsk: "disk s' = disk s"
      and saved: "data_file s' = Some (library_df s')" and res: "resolve s' = resolve s"
      by (simp_all add: s'_def save_data_def st_success_def)
    from False have none: "file_content s q = None"
      using assms(3)
      by (cases "q = []") (auto simp: file_content_def os_path_exists_def split: place.splits)
    then have gone: "file_content s' q = None"
      by (simp add: file_content_def res dsk split: place.splits)
    from False have "\<not> (q \<noteq> [] \<and> os_path_exists s' q)"
      by (simp add: os_path_exists_def res dsk split: place.splits)
    then have shown: "display_cover s' (Str q) = Inr Placeholder"
      by (simp add: display_cover_def)
    from run rows len before after gone dsk shown saved res show ?thesis
      by (intro exI[of _ s']) simp
  next
    case True
    with assms(3) obtain p where p: "resolve s q = File_at p" "disk s p \<noteq> None"
      by (auto simp: os_path_exists_def split: place.splits)
    define s' where
      "s' = st_success ''Book deleted successfully!''
              (save_data (s\<lparr>disk := (disk s)(p := None),
                            trace := trace s @ [Removed_file q],
                            library_df := ?rows\<rparr>))"
    have rm: "os_remove q s =
        Inr (s\<lparr>disk := (disk s)(p := None), trace := trace s @ [Removed_file q]\<rparr>)"
      using p by (simp add: os_remove_def)
    from True have guard: "(q \<noteq> [] \<and> os_path_exists s q) = True" by blast
    have run: "delete_book index s = Done s'"
      using assms(1,2) by (simp add: delete_book_def s'_def Let_def rm guard)
    have rows: "library_df s' = ?rows" and dsk: "disk s' = (disk s)(p := None)"
      and saved: "data_file s' = Some (library_df s')" and res: "resolve s' = resolve s"
      by (simp_all add: s'_def save_data_def st_success_def)
    have gone: "file_content s' q = None"
      by (simp add: file_content_def res dsk p)
    have "\<not> os_path_exists s' q"
      by (simp add: os_path_exists_def res dsk p)
    then have shown: "display_cover s' (Str q) = Inr Placeholder"
      by (simp add: display_cover_def)
    have others: "\<forall>p'. resolve s q \<noteq> File_at p' \<longrightarrow> disk s' p' = disk s p'"
      by (auto simp: dsk p)
    from run rows len before after gone others shown saved res show ?thesis
      by (intro exI[of _ s']) simp
  qed
qed

section \<open>The claims\<close>

subsection \<open>C1: the average rating\<close>

text \<open>
  The example of the specification, on the code: over the records A (rating 4) and B
  (rating 0) both places that show the average, the statistics page and the sidebar,
  compute \<^verbatim>\<open>library_df['Rating'].mean()\<close> over all the rows, which is 2, while the mean
  over the rated records only is 4.
\<close>

theorem C1_mean_counts_unrated_counterexample:
  "show_statistics (app_of [book_A, book_B]) =
     Some \<lparr>Total_Books = 2, Books_Read = 1, Total_Pages = 500,
           Average_Rating = Some 2, Pages_Read = 300\<rparr>
   \<and> quick_stats_average_rating (app_of [book_A, book_B]) = Some 2
   \<and> spec_averageRating [book_A, book_B] = 4"
  by (simp add: show_statistics_def quick_stats_average_rating_def mean_def app_of_def
        book_A_def book_B_def spec_averageRating_def Let_def)

text \<open>
  Claim C1, amended. The average rating is the mean of the rating over \<^emph>\<open>all\<close> the
  records of a non-empty catalogue, the unrated ones counting as 0; for the empty
  catalogue no average is computed. With ratings that are not negative (the slider gives
  0 to 5) it is therefore the mean over the rated records scaled by the share of rated
  records, and it is 0 when no record has a rating above 0.
\<close>

theorem C1_average_rating_over_all_records:
  assumes "list_all (\<lambda>b. 0 \<le> Rating b) (library_df s)"
  shows "quick_stats_average_rating s =
           (if library_df s = [] then None
            else Some (of_int (sum_list (map Rating (library_df s)))
                       / of_nat (length (library_df s))))
       \<and> map_option Average_Rating (show_statistics s) =
           (if library_df s = [] then None else Some (quick_stats_average_rating s))
       \<and> (library_df s \<noteq> [] \<longrightarrow>
            quick_stats_average_rating s =
              Some (spec_averageRating (library_df s)
                    * of_nat (length (filter (\<lambda>b. 0 < Rating b) (library_df s)))
                    / of_nat (length (library_df s))))
       \<and> (library_df s \<noteq> [] \<and> filter (\<lambda>b. 0 < Rating b) (library_df s) = [] \<longrightarrow>
            quick_stats_average_rating s = Some 0)"
  using sum_rated[OF assms]
  by (auto simp: quick_stats_average_rating_def show_statistics_def mean_def Let_def
        spec_averageRating_def)

theorem C1_average_rating_over_all_records_witness:
  "list_all (\<lambda>b. 0 \<le> Rating b) (library_df (app_of [book_A, book_B]))
   \<and> quick_stats_average_rating (app_of [book_A, book_B]) =
       Some (spec_averageRating [book_A, book_B]
             * of_nat (length (filter (\<lambda>b. 0 < Rating b) [book_A, book_B]))
             / of_nat (length [book_A, book_B]))
   \<and> map_option Average_Rating (show_statistics (app_of [book_A, book_B])) =
       Some (quick_stats_average_rating (app_of [book_A, book_B]))"
proof -
  let ?s = "app_of [book_A, book_B]"
  have df: "library_df ?s = [book_A, book_B]"
    by (simp add: app_of_def)
  have ne: "library_df ?s \<noteq> []"
    by (simp add: app_of_def)
  have h: "list_all (\<lambda>b. 0 \<le> Rating b) (library_df ?s)"
    by (simp add: app_of_def book_A_def book_B_def)
  note t = C1_average_rating_over_all_records[OF h]
  from t ne have q: "quick_stats_average_rating ?s =
      Some (spec_averageRating (library_df ?s)
            * of_nat (length (filter (\<lambda>b. 0 < Rating b) (library_df ?s)))
            / of_nat (length (library_df ?s)))"
    by blast
  from t have "map_option Average_Rating (show_statistics ?s) =
      (if library_df ?s = [] then None else Some (quick_stats_average_rating ?s))"
    by blast
  with ne have m: "map_option Average_Rating (show_statistics ?s) =
      Some (quick_stats_average_rating ?s)"
    by (simp only: if_False)
  from h q[unfolded df] m show ?thesis by blast
qed

subsection \<open>C2: the current page and the number of pages\<close>

text \<open>
  Claim C2: after an update the stored current page lies between 0 and the stored number
  of pages, also when the update lowers the number of pages below the current page it
  supplies. The code intends the bound (the edit form limits the current page by
  \<^verbatim>\<open>max_value=book['Pages']\<close>) but takes the limit from the row as stored, and
  \<^verbatim>\<open>update_book\<close> writes both numbers as given. For a book of 100 pages the form admits
  50 pages together with page 80, and the update stores page 80 of 50.
\<close>

theorem C2_progress_above_lowered_pages:
  "edit_form_admits book_dune 2026 ''Dune'' ''Frank Herbert'' ''0441013597''
     ''Science Fiction'' 1965 50 80 ''Reading'' 0
   \<and> (case show_edit_book_form ''Dune'' ''Frank Herbert'' ''0441013597'' ''Science Fiction''
             1965 50 80 ''Reading'' 0 [] None ''2026-11-03''
             ((app_of [book_dune])\<lparr>edit_index := Some 0\<rparr>) of
         Done s' \<Rightarrow> Some (map (\<lambda>b. (Current_Page b, Pages b)) (library_df s'))
       | Raised e s' \<Rightarrow> None
       | Adds_row \<Rightarrow> None)
     = Some [(80, 50)]"
  by (simp add: edit_form_admits_def show_edit_book_form_def update_book_def
        save_data_def st_success_def app_of_def book_dune_def
        GENRES_def STATUSES_def Let_def)

subsection \<open>C4: the text search\<close>

text \<open>
  Claim C4: a non-empty query passes a record exactly when it is, case aside, a literal
  substring of the title or of the author, and is never read as a pattern. The code
  lower-cases the query as text but hands it to \<^verbatim>\<open>str.contains\<close> without
  \<^verbatim>\<open>regex=False\<close>, so it is searched as a regular expression: the query of one dot
  passes the book "Dune" by Frank Herbert, whose title and author contain no dot.
  (For a query without special characters the search is the literal one:
  \<open>search_matches_plain\<close>.)
\<close>

theorem C4_dot_query_matches_without_dot:
  "apply_filters (no_filters\<lparr>search_query := ''.''\<rparr>) [book_dune] = Some [book_dune]
   \<and> \<not> sublist ''.'' (lower (Title book_dune))
   \<and> \<not> sublist ''.'' (lower (Author book_dune))"
  by (simp add: apply_filters_def no_filters_def search_matches_def str_contains_def
        re_modelled_def RE_SPECIAL_def lower_def lower_char_def book_dune_def
        sublist_Cons_right)

subsection \<open>C5: an add request with a missing field\<close>

text \<open>
  Claim C5. When the title or the author is empty, or the number of pages is missing
  (0), the add form answers with the error message and does nothing else: no row is
  appended, no file is written, nothing is saved, and the catalogue has the size it had.
  The error is the only effect, so nothing was changed before the request was refused.
\<close>

theorem C5_add_form_rejects_missing_fields:
  assumes "title = [] \<or> author = [] \<or> pages = 0"
  shows "\<exists>s'. show_add_book_form title author isbn genre year pages cover_file today s = Done s'
           \<and> s' = s\<lparr>trace := trace s @
                     [St_error ''Please fill in all required fields (marked with *)'']\<rparr>
           \<and> library_df s' = library_df s
           \<and> length (library_df s') = length (library_df s)
           \<and> disk s' = disk s
           \<and> data_file s' = data_file s
           \<and> trace s' = trace s @
                [St_error ''Please fill in all required fields (marked with *)'']"
  using assms by (auto simp: show_add_book_form_def st_error_def)

theorem C5_add_form_rejects_missing_fields_witness:
  "\<exists>s'. show_add_book_form [] ''X'' [] ''Fiction'' 2000 10 (Some old_cover)
           ''2024-03-01'' (app_of [book_A]) = Done s'
      \<and> library_df s' = [book_A]
      \<and> disk s' = Map.empty
      \<and> trace s' = [St_error ''Please fill in all required fields (marked with *)'']"
  using C5_add_form_rejects_missing_fields
          [of "[]" "''X''" 10 "[]" "''Fiction''" 2000 "Some old_cover" "''2024-03-01''"
              "app_of [book_A]"]
  by (simp add: app_of_def)

subsection \<open>C6: the finishing date\<close>

text \<open>
  Claim C6: an update sets the finishing date to today's date exactly when the status it
  supplies is \<^verbatim>\<open>Completed\<close> and the stored date was empty, and a date once set is never
  overwritten. The second half holds (\<open>run_updates_keep\<close>), and so does the first for a
  book added in the running session, whose empty date is the empty string
  (\<open>update_book_rows\<close>). But the test of emptiness is \<^verbatim>\<open>not cell\<close>, and the empty date
  of a book from an earlier session is \<^verbatim>\<open>NaN\<close>, which is true: marking the reloaded
  book as completed leaves it without a finishing date, where the same update of the
  book in the session that added it sets the date.
\<close>

theorem C6_reloaded_book_gets_no_finishing_date:
  "(case update_book 0 ''Emma'' ''Jane Austen'' ''978-0-14-143958-7'' ''Fiction'' 1815 474 474
           ''Completed'' 5 ''Slow start'' None ''2024-04-01'' (app_of [book_emma_reloaded]) of
      Done s' \<Rightarrow> Some (map (\<lambda>b. (Status b, Date_Finished b)) (library_df s'))
    | Raised e s' \<Rightarrow> None
    | Adds_row \<Rightarrow> None)
   = Some [(''Completed'', NaN)]
   \<and> (case update_book 0 ''Emma'' ''Jane Austen'' ''978-0-14-143958-7'' ''Fiction'' 1815 474 474
           ''Completed'' 5 ''Slow start'' None ''2024-04-01'' (app_of [book_emma]) of
      Done s' \<Rightarrow> Some (map (\<lambda>b. (Status b, Date_Finished b)) (library_df s'))
    | Raised e s' \<Rightarrow> None
    | Adds_row \<Rightarrow> None)
   = Some [(''Completed'', Str ''2024-04-01'')]"
  by (simp add: update_book_def save_data_def st_success_def app_of_def
        book_emma_reloaded_def book_emma_def Let_def)

subsection \<open>C7: a new cover for an existing book\<close>




subsection \<open>C8: adding a book\<close>




subsection \<open>C9: deleting a book\<close>

text \<open>
  Claim C9: for every existing record, delete removes exactly that record and its asset,
  and a later resolve of the asset gives the placeholder. It does for a record whose
  cover cell is a string (\<open>delete_book_string_cover\<close>). For a record without a cover
  that comes from an earlier session the cell is \<^verbatim>\<open>NaN\<close>: the guard
  \<^verbatim>\<open>cover_path and os.path.exists(cover_path)\<close>, written for the empty cell, lets it
  through to \<^verbatim>\<open>os.path.exists\<close>, which raises \<^verbatim>\<open>TypeError\<close>. The record is not removed
  and nothing is saved; showing its cover raises in the same way.
\<close>

theorem C9_reloaded_book_cannot_be_deleted:
  "delete_book 0 (app_of [book_emma_reloaded]) = Raised TypeError (app_of [book_emma_reloaded])
   \<and> library_df (app_of [book_emma_reloaded]) = [book_emma_reloaded]
   \<and> display_cover (app_of [book_emma_reloaded]) (Cover_Image book_emma_reloaded)
         = Inl TypeError
   \<and> (case delete_book 0 (app_of [book_emma]) of
         Done s' \<Rightarrow> Some (library_df s')
       | Raised e s' \<Rightarrow> None
       | Adds_row \<Rightarrow> None) = Some []"
  by (simp add: delete_book_def display_cover_def app_of_def book_emma_reloaded_def
        book_emma_def save_data_def st_success_def Let_def)

subsection \<open>C10: two books and one cover name\<close>

text \<open>
  Equal ISBNs alone do not make two books share a cover. The book of \<open>shelf\<close> has the
  ISBN 111 and the cover \<^verbatim>\<open>book_covers/111.jpg\<close>; a second book with the same ISBN is
  added with the cover \<^verbatim>\<open>other.png\<close>. The first book's file keeps its bytes, and
  deleting the second book leaves it on disk and on display.
\<close>

theorem C10_other_extension_not_shared_counterexample:
  "\<exists>s1 s2. add_book ''Dune Messiah'' ''Frank Herbert'' ''111'' ''Science Fiction'' 1969 256
              (Some other_cover) ''2024-03-02'' shelf = Done s1
      \<and> map ISBN (library_df s1) = [''111'', ''111'']
      \<and> map Cover_Image (library_df s1) = [Str ''book_covers/111.jpg'', Str ''book_covers/111.png'']
      \<and> file_content s1 ''book_covers/111.jpg'' = Some ''old bytes''
      \<and> delete_book 1 s1 = Done s2
      \<and> map Cover_Image (library_df s2) = [Str ''book_covers/111.jpg'']
      \<and> file_content s2 ''book_covers/111.jpg'' = Some ''old bytes''
      \<and> display_cover s2 (Str ''book_covers/111.jpg'') = Inr (Cover ''book_covers/111.jpg'')"
proof -
  have r: "resolve shelf (cover_filename ''111'' (file_extension (file_name other_cover)))
             = File_at [''app'', ''book_covers'', ''111.png'']"
    by (simp add: other_cover_name resolve_111_png)
  from add_book_cover_written[OF r, of "''Dune Messiah''" "''Frank Herbert''"
      "''Science Fiction''" 1969 256 "''2024-03-02''"]
  obtain s1 where run1: "add_book ''Dune Messiah'' ''Frank Herbert'' ''111'' ''Science Fiction''
        1969 256 (Some other_cover) ''2024-03-02'' shelf = Done s1"
    and rows1: "library_df s1 =
          library_df shelf @ [new_book ''Dune Messiah'' ''Frank Herbert'' ''111''
             ''Science Fiction'' 1969 256 ''2024-03-02''
             (Str (cover_filename ''111'' (file_extension (file_name other_cover))))]"
    and dsk1: "disk s1 = (disk shelf)([''app'', ''book_covers'', ''111.png''] \<mapsto> getbuffer other_cover)"
    and res1: "resolve s1 = resolve shelf"
    by blast
  have isbns: "map ISBN (library_df s1) = [''111'', ''111'']"
    by (simp add: rows1 new_book_def) (simp add: shelf_def)
  have covers1: "map Cover_Image (library_df s1)
                   = [Str ''book_covers/111.jpg'', Str ''book_covers/111.png'']"
    by (simp add: rows1 new_book_def other_cover_name) (simp add: shelf_def)
  have old1: "file_content s1 ''book_covers/111.jpg'' = Some ''old bytes''"
    using shelf_rows by (simp add: file_content_def res1 resolve_111_jpg dsk1)
  have i: "1 < length (library_df s1)"
    using shelf_rows by (simp add: rows1)
  have c: "Cover_Image (library_df s1 ! 1) = Str ''book_covers/111.png''"
    using shelf_rows by (simp add: rows1 nth_append new_book_def other_cover_name)
  have nd: "\<forall>d. resolve s1 ''book_covers/111.png'' \<noteq> Dir_at d"
    by (simp add: res1 resolve_111_png)
  from delete_book_string_cover[OF i c nd]
  obtain s2 where run2: "delete_book 1 s1 = Done s2"
    and rows2: "library_df s2 = take 1 (library_df s1) @ drop (Suc 1) (library_df s1)"
    and others: "\<forall>p. resolve s1 ''book_covers/111.png'' \<noteq> File_at p \<longrightarrow> disk s2 p = disk s1 p"
    and res2: "resolve s2 = resolve s1"
    by blast
  have covers2: "map Cover_Image (library_df s2) = [Str ''book_covers/111.jpg'']"
    using covers1 i by (simp add: rows2 take_map[symmetric] drop_map[symmetric])
  have d2: "disk s2 [''app'', ''book_covers'', ''111.jpg''] = Some ''old bytes''"
    using others old1 by (simp add: res1 resolve_111_png file_content_def resolve_111_jpg)
  then have old2: "file_content s2 ''book_covers/111.jpg'' = Some ''old bytes''"
    by (simp add: file_content_def res2 res1 resolve_111_jpg)
  have shown: "display_cover s2 (Str ''book_covers/111.jpg'') = Inr (Cover ''book_covers/111.jpg'')"
    using d2 by (simp add: display_cover_def os_path_exists_def res2 res1 resolve_111_jpg)
  from run1 isbns covers1 old1 run2 covers2 old2 shown show ?thesis
    by (intro exI[of _ s1] exI[of _ s2] conjI)
qed


text \<open>
  Claim C10, amended. The name of a stored cover is made from the ISBN passed to the
  upload and the extension of the uploaded file, and from nothing else. So when a row's
  cover cell holds the name that an upload for another book makes (as it does when both
  covers are stored under equal ISBNs, empty ones included, and equal extensions), adding
  that book, if the cover can be written, overwrites the row's cover with the new
  bytes, and deleting either of the two rows removes the file that the other row still
  names. The cover can be written whenever its name is a place for a file, as it is
  when the row's cover file exists; when it cannot, the add raises, nothing has changed,
  and the row had no cover file to share.
\<close>

theorem C10_same_name_cover_is_shared:
  assumes "i < length (library_df s)"
      and "Cover_Image (library_df s ! i) = Str (cover_filename isbn (file_extension (file_name f)))"
  shows "(case handle_cover_upload (Some f) isbn s of
            Inr (name, s') \<Rightarrow>
              name = Some (COVER_IMAGE_FOLDER @ ''/'' @ isbn @ ''.'' @ file_extension (file_name f))
          | Inl e \<Rightarrow>
              file_content s (cover_filename isbn (file_extension (file_name f))) = None)
     \<and> (let shared = cover_filename isbn (file_extension (file_name f))
        in (case add_book title author isbn genre year pages (Some f) today s of
              Done s1 \<Rightarrow>
                library_df s1 = library_df s @ [last (library_df s1)]
                \<and> Cover_Image (last (library_df s1)) = Str shared
                \<and> Cover_Image (library_df s1 ! i) = Str shared
                \<and> file_content s1 shared = Some (getbuffer f)
                \<and> (\<exists>s2. delete_book (length (library_df s)) s1 = Done s2
                      \<and> library_df s2 = library_df s
                      \<and> file_content s2 shared = None
                      \<and> display_cover s2 (Cover_Image (library_df s2 ! i)) = Inr Placeholder)
                \<and> (\<exists>s2. delete_book i s1 = Done s2
                      \<and> Cover_Image (last (library_df s2)) = Str shared
                      \<and> file_content s2 shared = None
                      \<and> display_cover s2 (Cover_Image (last (library_df s2))) = Inr Placeholder)
            | Raised e s1 \<Rightarrow> s1 = s \<and> file_content s shared = None
            | Adds_row \<Rightarrow> False)
           \<and> (\<forall>p. resolve s shared = File_at p \<longrightarrow>
                (\<exists>s1. add_book title author isbn genre year pages (Some f) today s = Done s1)))"
proof (cases "\<exists>p. resolve s (cover_filename isbn (file_extension (file_name f))) = File_at p")
  case True
  let ?shared = "cover_filename isbn (file_extension (file_name f))"
  let ?row = "new_book title author isbn genre year pages today (Str ?shared)"
  let ?n = "length (library_df s)"
  from True obtain p where p: "resolve s ?shared = File_at p"
    by (rule exE)
  have upload: "(case handle_cover_upload (Some f) isbn s of
            Inr (name, s') \<Rightarrow>
              name = Some (COVER_IMAGE_FOLDER @ ''/'' @ isbn @ ''.'' @ file_extension (file_name f))
          | Inl e \<Rightarrow> file_content s ?shared = None)"
    using p by (simp add: handle_cover_upload_def open_wb_def Let_def) (simp add: cover_filename_def)
  from add_book_cover_written[OF p, of title author genre year pages today]
  obtain s1 where run1: "add_book title author isbn genre year pages (Some f) today s = Done s1"
    and rows1: "library_df s1 = library_df s @ [?row]"
    and dsk1: "disk s1 = (disk s)(p \<mapsto> getbuffer f)"
    and res1: "resolve s1 = resolve s"
    by blast
  have lst: "last (library_df s1) = ?row"
    by (simp add: rows1)
  have a1: "library_df s1 = library_df s @ [last (library_df s1)]"
    by (simp add: lst) (rule rows1)
  have a2: "Cover_Image (last (library_df s1)) = Str ?shared"
    by (simp add: lst new_book_def)
  have a3: "Cover_Image (library_df s1 ! i) = Str ?shared"
    using assms by (simp add: rows1 nth_append)
  have a4: "file_content s1 ?shared = Some (getbuffer f)"
    by (simp add: file_content_def res1 p dsk1)
  have nd: "\<forall>d. resolve s1 ?shared \<noteq> Dir_at d"
    by (simp add: res1 p)
  have n1: "?n < length (library_df s1)" and i1: "i < length (library_df s1)"
    using assms(1) by (simp_all add: rows1)
  have cn: "Cover_Image (library_df s1 ! ?n) = Str ?shared"
    by (simp add: rows1 new_book_def)
  from delete_book_string_cover[OF n1 cn nd]
  obtain s2 where run2: "delete_book ?n s1 = Done s2"
    and rows2: "library_df s2 = take ?n (library_df s1) @ drop (Suc ?n) (library_df s1)"
    and gone2: "file_content s2 ?shared = None"
    and shown2: "display_cover s2 (Str ?shared) = Inr Placeholder"
    by blast
  have orig: "library_df s2 = library_df s"
    by (simp add: rows2 rows1)
  then have "display_cover s2 (Cover_Image (library_df s2 ! i)) = Inr Placeholder"
    using assms(2) shown2 by simp
  with run2 orig gone2
  have a5: "\<exists>s2. delete_book ?n s1 = Done s2
                      \<and> library_df s2 = library_df s
                      \<and> file_content s2 ?shared = None
                      \<and> display_cover s2 (Cover_Image (library_df s2 ! i)) = Inr Placeholder"
    by (intro exI[of _ s2] conjI)
  from delete_book_string_cover[OF i1 a3 nd]
  obtain s3 where run3: "delete_book i s1 = Done s3"
    and rows3: "library_df s3 = take i (library_df s1) @ drop (Suc i) (library_df s1)"
    and gone3: "file_content s3 ?shared = None"
    and shown3: "display_cover s3 (Str ?shared) = Inr Placeholder"
    by blast
  have "library_df s3 = (take i (library_df s) @ drop (Suc i) (library_df s)) @ [?row]"
    using assms(1) by (simp add: rows3 rows1)
  then have last3: "last (library_df s3) = ?row"
    by simp
  then have c3: "Cover_Image (last (library_df s3)) = Str ?shared"
    by (simp add: new_book_def)
  with shown3 have "display_cover s3 (Cover_Image (last (library_df s3))) = Inr Placeholder"
    by simp
  with run3 c3 gone3
  have a6: "\<exists>s2. delete_book i s1 = Done s2
                      \<and> Cover_Image (last (library_df s2)) = Str ?shared
                      \<and> file_content s2 ?shared = None
                      \<and> display_cover s2 (Cover_Image (last (library_df s2))) = Inr Placeholder"
    by (intro exI[of _ s3] conjI)
  have ex: "\<exists>s1'. Done s1 = Done s1'"
    by (rule exI) (rule refl)
  show ?thesis
    unfolding Let_def run1 outcome.case
    using upload a1 a2 a3 a4 a5 a6 ex by (intro conjI allI impI)
next
  case False
  let ?shared = "cover_filename isbn (file_extension (file_name f))"
  from False have no: "\<forall>p. resolve s ?shared \<noteq> File_at p"
    by simp
  from add_book_cover_refused[OF no, of title author genre year pages today]
  obtain e where run: "add_book title author isbn genre year pages (Some f) today s = Raised e s"
    and up: "handle_cover_upload (Some f) isbn s = Inl e"
    and none: "file_content s ?shared = None"
    by blast
  show ?thesis
    unfolding Let_def run up outcome.case sum.case
    using none no by simp
qed

theorem C10_same_name_cover_is_shared_witness:
  "\<exists>s1 s2. add_book ''Dune Messiah'' ''Frank Herbert'' ''111'' ''Science Fiction'' 1969 256
              (Some new_cover) ''2024-03-02'' shelf = Done s1
        \<and> file_content s1 ''book_covers/111.jpg'' = Some ''new bytes''
        \<and> delete_book 1 s1 = Done s2
        \<and> Cover_Image (library_df s2 ! 0) = Str ''book_covers/111.jpg''
        \<and> file_content s2 ''book_covers/111.jpg'' = None"
proof -
  have i: "0 < length (library_df shelf)" using shelf_rows by simp
  have n: "length (library_df shelf) = 1" using shelf_rows by simp
  have sn: "cover_filename ''111'' (file_extension (file_name new_cover)) = ''book_covers/111.jpg''"
    and g: "getbuffer new_cover = ''new bytes''"
    using new_cover_name by simp_all
  have p: "Cover_Image (library_df shelf ! 0) = Str ''book_covers/111.jpg''"
    using shelf_rows by simp
  have c: "Cover_Image (library_df shelf ! 0) =
             Str (cover_filename ''111'' (file_extension (file_name new_cover)))"
    by (simp add: sn) (rule p)
  note t = C10_same_name_cover_is_shared
      [OF i c, where title = "''Dune Messiah''" and author = "''Frank Herbert''"
         and genre = "''Science Fiction''" and year = 1969 and pages = 256
         and today = "''2024-03-02''", unfolded Let_def sn g n]
  have "\<exists>s1. add_book ''Dune Messiah'' ''Frank Herbert'' ''111'' ''Science Fiction'' 1969 256
              (Some new_cover) ''2024-03-02'' shelf = Done s1"
    by (rule mp[OF spec[OF t[THEN conjunct2, THEN conjunct2]]]) (rule resolve_111_jpg(2))
  then obtain s1 where
    d: "add_book ''Dune Messiah'' ''Frank Herbert'' ''111'' ''Science Fiction'' 1969 256
              (Some new_cover) ''2024-03-02'' shelf = Done s1"
    by (rule exE)
  note b = t[THEN conjunct2, THEN conjunct1, unfolded d outcome.case]
  note overwritten = b[THEN conjunct2, THEN conjunct2, THEN conjunct2, THEN conjunct1]
  note deleted = b[THEN conjunct2, THEN conjunct2, THEN conjunct2, THEN conjunct2, THEN conjunct1]
  from deleted obtain s2 where s2:
    "delete_book 1 s1 = Done s2
       \<and> library_df s2 = library_df shelf
       \<and> file_content s2 ''book_covers/111.jpg'' = None
       \<and> display_cover s2 (Cover_Image (library_df s2 ! 0)) = Inr Placeholder"
    by (rule exE)
  note r = s2[THEN conjunct1]
  from s2[THEN conjunct2, THEN conjunct1] p
  have k: "Cover_Image (library_df s2 ! 0) = Str ''book_covers/111.jpg''" by simp
  note gone = s2[THEN conjunct2, THEN conjunct2, THEN conjunct1]
  from d overwritten r k gone show ?thesis
    by (intro exI[of _ s1] exI[of _ s2] conjI)
qed

end
